theory Spec2Isabelle
  imports Main
begin

section \<open>Python values\<close>

text \<open>
  The bridge handles the values that \<^verbatim>\<open>json.loads\<close> produces and the dictionaries it
  builds itself.  A \<^verbatim>\<open>str\<close> is a list of code points, here restricted to the code
  points below 256; a \<^verbatim>\<open>float\<close> is identified by its \<^verbatim>\<open>repr\<close>; a \<^verbatim>\<open>dict\<close> is
  an association list in insertion order, its keys strings as in every decoded JSON object
  (Python keeps the keys of a dict distinct; a lookup here takes the first entry of a key).
  Limits of the interpreter (recursion depth, the digit limit of integer conversion,
  memory) are not part of the model.
\<close>

datatype pyval =
    PNone
  | PBool bool
  | PInt int
  | PFloat string
  | PStr string
  | PList "pyval list"
  | PDict "(string \<times> pyval) list"

text \<open>The exceptions that can occur, each with the text that \<^verbatim>\<open>str(e)\<close> gives (for
  those the interpreter raises, in the wording of CPython 3.12).
  \<open>AgnoError\<close> is an exception (a subclass of \<^verbatim>\<open>Exception\<close>) raised inside the agno
  library; \<open>UnicodeDecodeError\<close> is what reading standard input raises on bytes that are
  not text in its encoding; \<open>OtherError\<close> is any other exception of the standard library.\<close>

datatype exn =
    AttributeError string
  | KeyError string
  | TypeError string
  | JSONDecodeError string
  | AgnoError string
  | UnicodeDecodeError string
  | OtherError string

fun str_exn :: "exn \<Rightarrow> string" where
  "str_exn (AttributeError m) = m"
| "str_exn (KeyError m) = m"
| "str_exn (TypeError m) = m"
| "str_exn (JSONDecodeError m) = m"
| "str_exn (AgnoError m) = m"
| "str_exn (UnicodeDecodeError m) = m"
| "str_exn (OtherError m) = m"

fun type_name :: "pyval \<Rightarrow> string" where
  "type_name PNone = ''NoneType''"
| "type_name (PBool _) = ''bool''"
| "type_name (PInt _) = ''int''"
| "type_name (PFloat _) = ''float''"
| "type_name (PStr _) = ''str''"
| "type_name (PList _) = ''list''"
| "type_name (PDict _) = ''dict''"

subsection \<open>Rendering: \<^verbatim>\<open>str\<close>, \<^verbatim>\<open>repr\<close> and \<^verbatim>\<open>json.dumps\<close>\<close>

definition squote :: char where
  "squote = CHR 0x27"

definition dquote :: char where
  "dquote = CHR 0x22"

definition backslash :: char where
  "backslash = CHR 0x5C"

definition hex_digit :: "nat \<Rightarrow> char" where
  "hex_digit n = ''0123456789abcdef'' ! (n mod 16)"

definition hex2 :: "nat \<Rightarrow> string" where
  "hex2 n = [hex_digit (n div 16), hex_digit n]"

fun str_nat :: "nat \<Rightarrow> string" where
  "str_nat n = (if n < 10 then [hex_digit n] else str_nat (n div 10) @ [hex_digit (n mod 10)])"

declare str_nat.simps [simp del]

definition str_int :: "int \<Rightarrow> string" where
  "str_int i = (if i < 0 then CHR ''-'' # str_nat (nat (- i)) else str_nat (nat i))"

text \<open>\<^verbatim>\<open>repr\<close> of a \<^verbatim>\<open>str\<close>: double quotes are chosen when the text holds a single
  quote and no double quote; the quote and the backslash are escaped, tab, newline and
  carriage return get their letters, and every other code point that is not printable
  is written \<^verbatim>\<open>\xhh\<close>.\<close>

definition printable :: "char \<Rightarrow> bool" where
  "printable c =
     (let n = of_char c :: nat
      in (32 \<le> n \<and> n < 127) \<or> (161 \<le> n \<and> n \<noteq> 173))"

definition repr_char :: "char \<Rightarrow> char \<Rightarrow> string" where
  "repr_char quote c =
     (if c = quote \<or> c = backslash then [backslash, c]
      else if c = CHR 0x09 then [backslash, CHR ''t'']
      else if c = CHR 0x0A then [backslash, CHR ''n'']
      else if c = CHR 0x0D then [backslash, CHR ''r'']
      else if printable c then [c]
      else backslash # CHR ''x'' # hex2 (of_char c))"

definition repr_str :: "string \<Rightarrow> string" where
  "repr_str s =
     (let quote = (if squote \<in> set s \<and> dquote \<notin> set s then dquote else squote)
      in quote # concat (map (repr_char quote) s) @ [quote])"

fun py_repr :: "pyval \<Rightarrow> string"
  and repr_elems :: "pyval list \<Rightarrow> string"
  and repr_items :: "(string \<times> pyval) list \<Rightarrow> string" where
  "py_repr PNone = ''None''"
| "py_repr (PBool b) = (if b then ''True'' else ''False'')"
| "py_repr (PInt i) = str_int i"
| "py_repr (PFloat r) = r"
| "py_repr (PStr s) = repr_str s"
| "py_repr (PList xs) = ''['' @ repr_elems xs @ '']''"
| "py_repr (PDict kvs) = ''{'' @ repr_items kvs @ ''}''"
| "repr_elems [] = []"
| "repr_elems (x # xs) =
     (if xs = [] then py_repr x else py_repr x @ '', '' @ repr_elems xs)"
| "repr_items [] = []"
| "repr_items ((k, v) # kvs) =
     (if kvs = [] then repr_str k @ '': '' @ py_repr v
      else repr_str k @ '': '' @ py_repr v @ '', '' @ repr_items kvs)"

text \<open>What an f-string field \<^verbatim>\<open>{x}\<close> inserts: \<^verbatim>\<open>str(x)\<close>, which is the text itself for
  a \<^verbatim>\<open>str\<close> and the \<^verbatim>\<open>repr\<close> for every other value here.\<close>

definition py_str :: "pyval \<Rightarrow> string" where
  "py_str v = (case v of PStr s \<Rightarrow> s | _ \<Rightarrow> py_repr v)"

text \<open>\<^verbatim>\<open>json.dumps\<close> with its defaults (\<^verbatim>\<open>ensure_ascii\<close>, separators \<^verbatim>\<open>", "\<close> and
  \<^verbatim>\<open>": "\<close>).\<close>

definition json_char :: "char \<Rightarrow> string" where
  "json_char c =
     (if c = dquote \<or> c = backslash then [backslash, c]
      else if c = CHR 0x0A then [backslash, CHR ''n'']
      else if c = CHR 0x0D then [backslash, CHR ''r'']
      else if c = CHR 0x09 then [backslash, CHR ''t'']
      else if c = CHR 0x08 then [backslash, CHR ''b'']
      else if c = CHR 0x0C then [backslash, CHR ''f'']
      else if 32 \<le> (of_char c :: nat) \<and> (of_char c :: nat) < 127 then [c]
      else backslash # ''u00'' @ hex2 (of_char c))"

definition json_str :: "string \<Rightarrow> string" where
  "json_str s = dquote # concat (map json_char s) @ [dquote]"

definition json_float :: "string \<Rightarrow> string" where
  "json_float r =
     (if r = ''nan'' then ''NaN''
      else if r = ''inf'' then ''Infinity''
      else if r = ''-inf'' then ''-Infinity''
      else r)"

fun json_dumps :: "pyval \<Rightarrow> string"
  and dumps_elems :: "pyval list \<Rightarrow> string"
  and dumps_items :: "(string \<times> pyval) list \<Rightarrow> string" where
  "json_dumps PNone = ''null''"
| "json_dumps (PBool b) = (if b then ''true'' else ''false'')"
| "json_dumps (PInt i) = str_int i"
| "json_dumps (PFloat r) = json_float r"
| "json_dumps (PStr s) = json_str s"
| "json_dumps (PList xs) = ''['' @ dumps_elems xs @ '']''"
| "json_dumps (PDict kvs) = ''{'' @ dumps_items kvs @ ''}''"
| "dumps_elems [] = []"
| "dumps_elems (x # xs) =
     (if xs = [] then json_dumps x else json_dumps x @ '', '' @ dumps_elems xs)"
| "dumps_items [] = []"
| "dumps_items ((k, v) # kvs) =
     (if kvs = [] then json_str k @ '': '' @ json_dumps v
      else json_str k @ '': '' @ json_dumps v @ '', '' @ dumps_items kvs)"

subsection \<open>The operations on values that the bridge uses\<close>

text \<open>\<^verbatim>\<open>obj.get(key, default)\<close>: only a \<^verbatim>\<open>dict\<close> has the method.\<close>

definition py_get :: "pyval \<Rightarrow> string \<Rightarrow> pyval \<Rightarrow> exn + pyval" where
  "py_get obj key dflt =
     (case obj of
        PDict kvs \<Rightarrow> Inr (case map_of kvs key of None \<Rightarrow> dflt | Some v \<Rightarrow> v)
      | _ \<Rightarrow> Inl (AttributeError
                 (squote # type_name obj @ squote # '' object has no attribute 'get'' @ [squote])))"

text \<open>\<^verbatim>\<open>obj[key]\<close> with a \<^verbatim>\<open>str\<close> key.\<close>

definition py_getitem :: "pyval \<Rightarrow> string \<Rightarrow> exn + pyval" where
  "py_getitem obj key =
     (case obj of
        PDict kvs \<Rightarrow>
          (case map_of kvs key of None \<Rightarrow> Inl (KeyError (repr_str key)) | Some v \<Rightarrow> Inr v)
      | PStr _ \<Rightarrow> Inl (TypeError (''string indices must be integers, not 'str'' @ [squote]))
      | PList _ \<Rightarrow> Inl (TypeError ''list indices must be integers or slices, not str'')
      | _ \<Rightarrow> Inl (TypeError (squote # type_name obj @ squote # '' object is not subscriptable'')))"

text \<open>The elements that \<^verbatim>\<open>for m in obj\<close> visits: the items of a list, the keys of a
  dict, the characters of a string.\<close>

definition py_iter :: "pyval \<Rightarrow> exn + pyval list" where
  "py_iter obj =
     (case obj of
        PList xs \<Rightarrow> Inr xs
      | PDict kvs \<Rightarrow> Inr (map (\<lambda>kv. PStr (fst kv)) kvs)
      | PStr s \<Rightarrow> Inr (map (\<lambda>c. PStr [c]) s)
      | _ \<Rightarrow> Inl (TypeError (squote # type_name obj @ squote # '' object is not iterable'')))"

text \<open>\<^verbatim>\<open>obj[:n]\<close>.  A dict looks the slice up as a key and does not find it (before
  CPython 3.12 it raises \<open>TypeError\<close> instead, the slice not being hashable).\<close>

definition py_slice_to :: "nat \<Rightarrow> pyval \<Rightarrow> exn + pyval" where
  "py_slice_to n obj =
     (case obj of
        PStr s \<Rightarrow> Inr (PStr (take n s))
      | PList xs \<Rightarrow> Inr (PList (take n xs))
      | PDict _ \<Rightarrow> Inl (KeyError (''slice(None, '' @ str_nat n @ '', None)''))
      | _ \<Rightarrow> Inl (TypeError (squote # type_name obj @ squote # '' object is not subscriptable'')))"

section \<open>The world around the script\<close>

text \<open>
  What the script calls and does not define: the agno library, \<^verbatim>\<open>traceback.format_exc\<close>
  and \<^verbatim>\<open>json.loads\<close>.  The library is opaque, so each entry point is a parameter that
  returns a value or raises; \<open>'a\<close> is the type of its agent objects and \<open>'m\<close> the type of
  its message objects.  \<open>agent_generate\<close> stands for \<^verbatim>\<open>agent.generate(...).content\<close> and
  \<open>agent_has_tool\<close> for \<^verbatim>\<open>tool_name in agent.tools\<close>.  \<open>AGNO_AVAILABLE\<close> is the flag the
  import at the top of the module sets.
\<close>

record ('a, 'm) world =
  AGNO_AVAILABLE :: bool
  agno_Agent :: "pyval \<Rightarrow> pyval \<Rightarrow> pyval \<Rightarrow> exn + 'a"
  agent_name :: "'a \<Rightarrow> exn + pyval"
  agent_description :: "'a \<Rightarrow> exn + pyval"
  agent_model :: "'a \<Rightarrow> exn + pyval"
  agno_SystemMessage :: "pyval \<Rightarrow> exn + 'm"
  agno_UserMessage :: "pyval \<Rightarrow> exn + 'm"
  agno_AssistantMessage :: "pyval \<Rightarrow> exn + 'm"
  agno_FunctionMessage :: "pyval \<Rightarrow> pyval \<Rightarrow> exn + 'm"
  agent_generate :: "'a \<Rightarrow> 'm list \<Rightarrow> pyval \<Rightarrow> pyval \<Rightarrow> pyval \<Rightarrow> exn + pyval"
  agent_has_tool :: "'a \<Rightarrow> pyval \<Rightarrow> exn + bool"
  agent_execute_tool :: "'a \<Rightarrow> pyval \<Rightarrow> (string \<times> pyval) list \<Rightarrow> exn + pyval"
  format_exc :: "exn \<Rightarrow> string"
  json_loads :: "string \<Rightarrow> exn + pyval"

text \<open>
  The state of the process: the module-level variable \<^verbatim>\<open>agent\<close> (\<open>None\<close> until an agent
  is constructed) and, as a record of what the run did, the sequence of action handlers
  entered and library entry points called, each with its arguments.
\<close>

datatype 'm event =
    Enter_initialize_agent pyval
  | Enter_generate_completion pyval pyval
  | Enter_execute_tool pyval pyval
  | Call_Agent pyval pyval pyval
  | Call_SystemMessage pyval
  | Call_UserMessage pyval
  | Call_AssistantMessage pyval
  | Call_FunctionMessage pyval pyval
  | Call_generate "'m list" pyval pyval pyval
  | Call_execute_tool pyval "(string \<times> pyval) list"

record ('a, 'm) state =
  agent :: "'a option"
  trace :: "'m event list"

definition log :: "'m event \<Rightarrow> ('a, 'm) state \<Rightarrow> ('a, 'm) state" where
  "log ev st = st\<lparr>trace := trace st @ [ev]\<rparr>"

section \<open>The bridge\<close>

text \<open>
  Each function of \<^verbatim>\<open>scripts/agno_bridge.py\<close> takes the world and the state and returns
  what the Python function returns or raises (\<open>Inl\<close> the exception) together with the
  new state.  The body of a \<^verbatim>\<open>try\<close> block is a function of its own (suffix \<open>_try\<close>) and
  the \<^verbatim>\<open>except Exception\<close> clause is the case distinction on its result.
\<close>

subsection \<open>\<^verbatim>\<open>initialize_agent\<close>\<close>

definition initialize_agent_try ::
  "('a, 'm) world \<Rightarrow> ('a, 'm) state \<Rightarrow> pyval \<Rightarrow> (exn + pyval) \<times> ('a, 'm) state" where
  "initialize_agent_try w st config =
     (case py_get config ''agentName'' (PStr ''Agent Nexus'') of
        Inl e \<Rightarrow> (Inl e, st)
      | Inr name \<Rightarrow>
     (case py_get config ''description'' (PStr ''An advanced cognitive agent architecture'') of
        Inl e \<Rightarrow> (Inl e, st)
      | Inr description \<Rightarrow>
     (case py_get config ''modelName'' (PStr ''gpt-4'') of
        Inl e \<Rightarrow> (Inl e, st)
      | Inr model \<Rightarrow>
     (let st1 = log (Call_Agent name description model) st in
      case agno_Agent w name description model of
        Inl e \<Rightarrow> (Inl e, st1)
      | Inr a \<Rightarrow>
     (let st2 = st1\<lparr>agent := Some a\<rparr> in
      case agent_name w a of
        Inl e \<Rightarrow> (Inl e, st2)
      | Inr n \<Rightarrow>
     (case agent_description w a of
        Inl e \<Rightarrow> (Inl e, st2)
      | Inr d \<Rightarrow>
     (case agent_model w a of
        Inl e \<Rightarrow> (Inl e, st2)
      | Inr m \<Rightarrow>
          (Inr (PDict [(''success'', PBool True),
                       (''data'', PDict [(''name'', n), (''description'', d),
                                         (''model'', m), (''demo'', PBool False)])]),
           st2))))))))"

definition initialize_agent ::
  "('a, 'm) world \<Rightarrow> ('a, 'm) state \<Rightarrow> pyval \<Rightarrow> (exn + pyval) \<times> ('a, 'm) state" where
  "initialize_agent w st0 config =
     (let st = log (Enter_initialize_agent config) st0 in
      if \<not> AGNO_AVAILABLE w then
        (case py_get config ''agentName'' (PStr ''Agent Nexus'') of
           Inl e \<Rightarrow> (Inl e, st)
         | Inr name \<Rightarrow>
        (case py_get config ''description'' (PStr ''Demo Agent (agno not available)'') of
           Inl e \<Rightarrow> (Inl e, st)
         | Inr description \<Rightarrow>
        (case py_get config ''modelName'' (PStr ''demo-model'') of
           Inl e \<Rightarrow> (Inl e, st)
         | Inr model \<Rightarrow>
             (Inr (PDict [(''success'', PBool True),
                          (''data'', PDict [(''name'', name), (''description'', description),
                                            (''model'', model), (''demo'', PBool True)])]),
              st))))
      else
        (case initialize_agent_try w st config of
           (Inl e, st') \<Rightarrow>
             (Inr (PDict [(''success'', PBool False),
                          (''error'', PStr (''Failed to initialize agent: '' @ str_exn e))]),
              st')
         | (Inr response, st') \<Rightarrow> (Inr response, st')))"

subsection \<open>\<^verbatim>\<open>generate_completion\<close>\<close>

text \<open>\<^verbatim>\<open>next((m['content'] for m in messages if m['role'] == 'user'), '')\<close>: the
  generator is consumed up to its first item only.\<close>

fun next_user_content :: "pyval list \<Rightarrow> exn + pyval" where
  "next_user_content [] = Inr (PStr [])"
| "next_user_content (m # ms) =
     (case py_getitem m ''role'' of
        Inl e \<Rightarrow> Inl e
      | Inr role \<Rightarrow>
          if role = PStr ''user'' then py_getitem m ''content'' else next_user_content ms)"

text \<open>The text of the f-string of the compatibility mode, around the inserted field.\<close>

definition demo_completion :: "string \<Rightarrow> string" where
  "demo_completion shown =
     ''Demo response to: '' @ [squote] @ shown @ ''...'' @ [squote] @ ''\<newline>\<newline>'' @
     ''This is a demo response because the agno library is not available. '' @
     ''Please install the agno library for full functionality.''"

text \<open>The loop that converts the messages to agno format.  \<open>convert_message\<close> is one
  pass through the loop body, \<open>acc\<close> the list \<^verbatim>\<open>agno_messages\<close> built so far; a role that
  no branch names falls through the \<^verbatim>\<open>if\<close>/\<^verbatim>\<open>elif\<close> chain, which has no \<^verbatim>\<open>else\<close>.\<close>

definition convert_message ::
  "('a, 'm) world \<Rightarrow> pyval \<Rightarrow> 'm list \<Rightarrow> ('a, 'm) state \<Rightarrow>
     (exn + 'm list) \<times> ('a, 'm) state" where
  "convert_message w msg acc st =
     (case py_getitem msg ''role'' of
        Inl e \<Rightarrow> (Inl e, st)
      | Inr role \<Rightarrow>
     (case py_getitem msg ''content'' of
        Inl e \<Rightarrow> (Inl e, st)
      | Inr content \<Rightarrow>
          if role = PStr ''system'' then
            (case agno_SystemMessage w content of
               Inl e \<Rightarrow> (Inl e, log (Call_SystemMessage content) st)
             | Inr m \<Rightarrow> (Inr (acc @ [m]), log (Call_SystemMessage content) st))
          else if role = PStr ''user'' then
            (case agno_UserMessage w content of
               Inl e \<Rightarrow> (Inl e, log (Call_UserMessage content) st)
             | Inr m \<Rightarrow> (Inr (acc @ [m]), log (Call_UserMessage content) st))
          else if role = PStr ''assistant'' then
            (case agno_AssistantMessage w content of
               Inl e \<Rightarrow> (Inl e, log (Call_AssistantMessage content) st)
             | Inr m \<Rightarrow> (Inr (acc @ [m]), log (Call_AssistantMessage content) st))
          else if role = PStr ''function'' \<or> role = PStr ''tool'' then
            (case py_get msg ''name'' (PStr ''function'') of
               Inl e \<Rightarrow> (Inl e, st)
             | Inr name \<Rightarrow>
            (case agno_FunctionMessage w content name of
               Inl e \<Rightarrow> (Inl e, log (Call_FunctionMessage content name) st)
             | Inr m \<Rightarrow> (Inr (acc @ [m]), log (Call_FunctionMessage content name) st)))
          else (Inr acc, st)))"

fun convert_messages ::
  "('a, 'm) world \<Rightarrow> pyval list \<Rightarrow> 'm list \<Rightarrow> ('a, 'm) state \<Rightarrow>
     (exn + 'm list) \<times> ('a, 'm) state" where
  "convert_messages w [] acc st = (Inr acc, st)"
| "convert_messages w (msg # msgs) acc st =
     (case convert_message w msg acc st of
        (Inl e, st') \<Rightarrow> (Inl e, st')
      | (Inr acc', st') \<Rightarrow> convert_messages w msgs acc' st')"

definition generate_completion_try ::
  "('a, 'm) world \<Rightarrow> ('a, 'm) state \<Rightarrow> pyval \<Rightarrow> pyval \<Rightarrow>
     (exn + pyval) \<times> ('a, 'm) state" where
  "generate_completion_try w st messages options =
     (case py_iter messages of
        Inl e \<Rightarrow> (Inl e, st)
      | Inr msgs \<Rightarrow>
     (case convert_messages w msgs [] st of
        (Inl e, st1) \<Rightarrow> (Inl e, st1)
      | (Inr agno_messages, st1) \<Rightarrow>
     (case py_get options ''temperature'' (PFloat ''0.7'') of
        Inl e \<Rightarrow> (Inl e, st1)
      | Inr temperature \<Rightarrow>
     (case py_get options ''maxTokens'' (PInt 1000) of
        Inl e \<Rightarrow> (Inl e, st1)
      | Inr max_tokens \<Rightarrow>
     (case py_get options ''stop'' PNone of
        Inl e \<Rightarrow> (Inl e, st1)
      | Inr stop \<Rightarrow>
     (let st2 = log (Call_generate agno_messages temperature max_tokens stop) st1 in
      case agent_generate w (the (agent st1)) agno_messages temperature max_tokens stop of
        Inl e \<Rightarrow> (Inl e, st2)
      | Inr content \<Rightarrow>
          (Inr (PDict [(''success'', PBool True), (''data'', content)]), st2)))))))"

definition generate_completion ::
  "('a, 'm) world \<Rightarrow> ('a, 'm) state \<Rightarrow> pyval \<Rightarrow> pyval \<Rightarrow>
     (exn + pyval) \<times> ('a, 'm) state" where
  "generate_completion w st0 messages options =
     (let st = log (Enter_generate_completion messages options) st0 in
      if \<not> AGNO_AVAILABLE w \<or> agent st = None then
        (case py_iter messages of
           Inl e \<Rightarrow> (Inl e, st)
         | Inr msgs \<Rightarrow>
        (case next_user_content msgs of
           Inl e \<Rightarrow> (Inl e, st)
         | Inr user_message \<Rightarrow>
        (case py_slice_to 50 user_message of
           Inl e \<Rightarrow> (Inl e, st)
         | Inr shown \<Rightarrow>
             (Inr (PDict [(''success'', PBool True),
                          (''data'', PStr (demo_completion (py_str shown)))]),
              st))))
      else
        (case generate_completion_try w st messages options of
           (Inl e, st') \<Rightarrow>
             (Inr (PDict [(''success'', PBool False),
                          (''error'', PStr (''Failed to generate completion: '' @ str_exn e))]),
              st')
         | (Inr response, st') \<Rightarrow> (Inr response, st')))"

subsection \<open>\<^verbatim>\<open>execute_tool\<close>\<close>

text \<open>\<^verbatim>\<open>agent.execute_tool(tool_name, **params)\<close>: the call is made only when
  \<^verbatim>\<open>params\<close> is a mapping.  Otherwise the interpreter raises \<open>TypeError\<close>; its message
  starts with the name of the called method, which the library decides and which is left
  out here.\<close>

definition execute_tool_try ::
  "('a, 'm) world \<Rightarrow> ('a, 'm) state \<Rightarrow> pyval \<Rightarrow> pyval \<Rightarrow>
     (exn + pyval) \<times> ('a, 'm) state" where
  "execute_tool_try w st tool_name params =
     (case agent_has_tool w (the (agent st)) tool_name of
        Inl e \<Rightarrow> (Inl e, st)
      | Inr found \<Rightarrow>
          if \<not> found then
            (Inr (PDict [(''success'', PBool False),
                         (''error'', PStr (''Tool not found: '' @ py_str tool_name))]),
             st)
          else
            (case params of
               PDict kwargs \<Rightarrow>
                 (let st1 = log (Call_execute_tool tool_name kwargs) st in
                  case agent_execute_tool w (the (agent st)) tool_name kwargs of
                    Inl e \<Rightarrow> (Inl e, st1)
                  | Inr result \<Rightarrow>
                      (Inr (PDict [(''success'', PBool True), (''data'', result)]), st1))
             | _ \<Rightarrow>
                 (Inl (TypeError (''argument after ** must be a mapping, not '' @
                                  type_name params)),
                  st)))"

definition execute_tool ::
  "('a, 'm) world \<Rightarrow> ('a, 'm) state \<Rightarrow> pyval \<Rightarrow> pyval \<Rightarrow>
     (exn + pyval) \<times> ('a, 'm) state" where
  "execute_tool w st0 tool_name params =
     (let st = log (Enter_execute_tool tool_name params) st0 in
      if \<not> AGNO_AVAILABLE w \<or> agent st = None then
        (Inr (PDict [(''success'', PBool True),
                     (''data'', PStr (''Demo tool execution for: '' @ py_str tool_name @
                        ''\<newline>Parameters: '' @ json_dumps params @ ''\<newline>\<newline>'' @
                        ''This is a demo response because the agno library is not available.''))]),
         st)
      else
        (case execute_tool_try w st tool_name params of
           (Inl e, st') \<Rightarrow>
             (Inr (PDict [(''success'', PBool False),
                          (''error'', PStr (''Failed to execute tool '' @ py_str tool_name @
                             '': '' @ str_exn e))]),
              st')
         | (Inr response, st') \<Rightarrow> (Inr response, st')))"

subsection \<open>\<^verbatim>\<open>handle_request\<close> and \<^verbatim>\<open>main\<close>\<close>

definition handle_request_try ::
  "('a, 'm) world \<Rightarrow> ('a, 'm) state \<Rightarrow> pyval \<Rightarrow> pyval \<Rightarrow>
     (exn + pyval) \<times> ('a, 'm) state" where
  "handle_request_try w st action data =
     (if action = PStr ''ping'' then
        (Inr (PDict [(''success'', PBool True), (''data'', PBool True)]), st)
      else if action = PStr ''initialize_agent'' then initialize_agent w st data
      else if action = PStr ''generate_completion'' then
        (case py_get data ''messages'' (PList []) of
           Inl e \<Rightarrow> (Inl e, st)
         | Inr messages \<Rightarrow>
        (case py_get data ''options'' (PDict []) of
           Inl e \<Rightarrow> (Inl e, st)
         | Inr options \<Rightarrow> generate_completion w st messages options))
      else if action = PStr ''execute_tool'' then
        (case py_get data ''toolName'' PNone of
           Inl e \<Rightarrow> (Inl e, st)
         | Inr tool_name \<Rightarrow>
        (case py_get data ''params'' (PDict []) of
           Inl e \<Rightarrow> (Inl e, st)
         | Inr params \<Rightarrow> execute_tool w st tool_name params))
      else
        (Inr (PDict [(''success'', PBool False),
                     (''error'', PStr (''Unknown action: '' @ py_str action))]),
         st))"

definition handle_request ::
  "('a, 'm) world \<Rightarrow> ('a, 'm) state \<Rightarrow> pyval \<Rightarrow> (exn + pyval) \<times> ('a, 'm) state" where
  "handle_request w st request =
     (case py_get request ''action'' PNone of
        Inl e \<Rightarrow> (Inl e, st)
      | Inr action \<Rightarrow>
     (case py_get request ''data'' (PDict []) of
        Inl e \<Rightarrow> (Inl e, st)
      | Inr data \<Rightarrow>
     (case handle_request_try w st action data of
        (Inl e, st') \<Rightarrow>
          (Inr (PDict [(''success'', PBool False),
                       (''error'', PStr (''Error processing '' @ py_str action @ '': '' @
                          str_exn e)),
                       (''traceback'', PStr (format_exc w e))]),
           st')
      | (Inr response, st') \<Rightarrow> (Inr response, st'))))"

text \<open>The two \<^verbatim>\<open>except\<close> clauses of \<^verbatim>\<open>main\<close>, in their order; the result is the line that
  \<^verbatim>\<open>print\<close> writes.\<close>

definition main_except :: "exn \<Rightarrow> string" where
  "main_except e =
     (case e of
        JSONDecodeError m \<Rightarrow>
          json_dumps (PDict [(''success'', PBool False),
                             (''error'', PStr (''Invalid JSON: '' @ m))]) @ ''\<newline>''
      | _ \<Rightarrow>
          json_dumps (PDict [(''success'', PBool False),
                             (''error'', PStr (''Unexpected error: '' @ str_exn e))]) @
          ''\<newline>'')"

text \<open>\<open>main\<close> returns what the run writes to standard output.  \<open>stdin\<close> is the result of
  \<^verbatim>\<open>sys.stdin.read()\<close>: the text, or the exception that decoding the bytes raised.\<close>

definition main ::
  "('a, 'm) world \<Rightarrow> ('a, 'm) state \<Rightarrow> exn + string \<Rightarrow> string \<times> ('a, 'm) state" where
  "main w st stdin =
     (case stdin of
        Inl e \<Rightarrow> (main_except e, st)
      | Inr request_json \<Rightarrow>
     (case json_loads w request_json of
        Inl e \<Rightarrow> (main_except e, st)
      | Inr request \<Rightarrow>
     (case handle_request w st request of
        (Inl e, st') \<Rightarrow> (main_except e, st')
      | (Inr response, st') \<Rightarrow> (json_dumps response @ ''\<newline>'', st'))))"

text \<open>A response as the specification describes it: a dict with a boolean \<open>success\<close>,
  with \<open>data\<close> when it is true and with a text \<open>error\<close> when it is false.\<close>

definition is_str :: "pyval \<Rightarrow> bool" where
  "is_str v = (case v of PStr _ \<Rightarrow> True | _ \<Rightarrow> False)"

definition is_response :: "pyval \<Rightarrow> bool" where
  "is_response r =
     (case r of
        PDict kvs \<Rightarrow>
          (case map_of kvs ''success'' of
             None \<Rightarrow> False
           | Some s \<Rightarrow>
               if s = PBool True then map_of kvs ''data'' \<noteq> None
               else s = PBool False \<and>
                    (case map_of kvs ''error'' of None \<Rightarrow> False | Some v \<Rightarrow> is_str v))
      | _ \<Rightarrow> False)"

text \<open>The content of the first message whose role is \<open>user\<close>, the empty text when there
  is none: the specification's description of what the compatibility mode echoes.\<close>

definition first_user_text :: "pyval list \<Rightarrow> string" where
  "first_user_text msgs =
     (case find (\<lambda>m. py_getitem m ''role'' = Inr (PStr ''user'')) msgs of
        None \<Rightarrow> []
      | Some m \<Rightarrow> (case py_getitem m ''content'' of Inr (PStr c) \<Rightarrow> c | _ \<Rightarrow> []))"

section \<open>Two concrete worlds\<close>

text \<open>\<open>demo_world\<close> is a run without the library; \<open>toy_world\<close> has a small stand-in for it:
  an agent is the triple of its name, description and model, the constructor rejects the
  model \<open>broken\<close>, a message is its role with its content, the only tool is \<open>search\<close>.
  Both decode three texts the way \<^verbatim>\<open>json.loads\<close> does, which accepts the constant
  \<^verbatim>\<open>NaN\<close> although JSON has no such value, and reject every other input.\<close>

definition sample_loads :: "string \<Rightarrow> exn + pyval" where
  "sample_loads s =
     (if s = ''{'' @ [dquote] @ ''action'' @ [dquote] @ '': '' @ [dquote] @ ''ping'' @ [dquote] @ ''}''
      then Inr (PDict [(''action'', PStr ''ping'')])
      else if s = ''{'' @ [dquote] @ ''action'' @ [dquote] @ '': NaN}''
      then Inr (PDict [(''action'', PFloat ''nan'')])
      else if s = ''NaN'' then Inr (PFloat ''nan'')
      else Inl (JSONDecodeError ''Expecting value: line 1 column 1 (char 0)''))"

definition demo_world :: "(unit, unit) world" where
  "demo_world =
     \<lparr> AGNO_AVAILABLE = False,
       agno_Agent = (\<lambda>n d m. Inl (AgnoError ''no library'')),
       agent_name = (\<lambda>a. Inl (AgnoError ''no library'')),
       agent_description = (\<lambda>a. Inl (AgnoError ''no library'')),
       agent_model = (\<lambda>a. Inl (AgnoError ''no library'')),
       agno_SystemMessage = (\<lambda>c. Inl (AgnoError ''no library'')),
       agno_UserMessage = (\<lambda>c. Inl (AgnoError ''no library'')),
       agno_AssistantMessage = (\<lambda>c. Inl (AgnoError ''no library'')),
       agno_FunctionMessage = (\<lambda>c n. Inl (AgnoError ''no library'')),
       agent_generate = (\<lambda>a ms t n s. Inl (AgnoError ''no library'')),
       agent_has_tool = (\<lambda>a t. Inl (AgnoError ''no library'')),
       agent_execute_tool = (\<lambda>a t kw. Inl (AgnoError ''no library'')),
       format_exc = (\<lambda>e. ''Traceback (most recent call last): '' @ str_exn e),
       json_loads = sample_loads \<rparr>"

definition toy_world :: "(pyval \<times> pyval \<times> pyval, string \<times> pyval) world" where
  "toy_world =
     \<lparr> AGNO_AVAILABLE = True,
       agno_Agent = (\<lambda>n d m. if m = PStr ''broken'' then Inl (AgnoError ''unknown model'')
                               else Inr (n, d, m)),
       agent_name = (\<lambda>a. Inr (fst a)),
       agent_description = (\<lambda>a. Inr (fst (snd a))),
       agent_model = (\<lambda>a. Inr (snd (snd a))),
       agno_SystemMessage = (\<lambda>c. Inr (''system'', c)),
       agno_UserMessage = (\<lambda>c. Inr (''user'', c)),
       agno_AssistantMessage = (\<lambda>c. Inr (''assistant'', c)),
       agno_FunctionMessage = (\<lambda>c n. Inr (''function'', c)),
       agent_generate = (\<lambda>a ms t n s. Inr (PStr ''done'')),
       agent_has_tool = (\<lambda>a t. Inr (t = PStr ''search'')),
       agent_execute_tool = (\<lambda>a t kw. Inr (PDict kw)),
       format_exc = (\<lambda>e. ''Traceback (most recent call last): '' @ str_exn e),
       json_loads = sample_loads \<rparr>"

definition fresh :: "('a, 'm) state" where
  "fresh = \<lparr> agent = None, trace = [] \<rparr>"

definition toy_agent :: "pyval \<times> pyval \<times> pyval" where
  "toy_agent = (PStr ''Agent Nexus'', PStr ''a helper'', PStr ''gpt-4'')"

definition running :: "(pyval \<times> pyval \<times> pyval, string \<times> pyval) state" where
  "running = \<lparr> agent = Some toy_agent, trace = [] \<rparr>"

text \<open>A message as the specification's data model has it: \<open>role\<close> and \<open>content\<close> are
  present and are texts.  Other fields may be present as well.\<close>

definition is_message :: "pyval \<Rightarrow> bool" where
  "is_message m =
     (case py_getitem m ''role'' of
        Inl _ \<Rightarrow> False
      | Inr r \<Rightarrow>
          is_str r \<and> (case py_getitem m ''content'' of Inl _ \<Rightarrow> False | Inr c \<Rightarrow> is_str c))"


section \<open>Properties of the bridge\<close>

subsection \<open>Auxiliary facts\<close>

lemma ok_is_response [simp]:
  "is_response (PDict [(''success'', PBool True), (''data'', d)])"
  by (simp add: is_response_def)

lemma failed_is_response [simp]:
  "is_response (PDict ((''success'', PBool False) # (''error'', PStr msg) # rest))"
  by (simp add: is_response_def is_str_def)

lemma initialize_agent_try_response:
  "initialize_agent_try w st config = (Inr r, st') \<Longrightarrow> is_response r"
  by (auto simp: initialize_agent_try_def Let_def split: sum.splits)

lemma initialize_agent_response:
  "initialize_agent w st config = (Inr r, st') \<Longrightarrow> is_response r"
  by (auto simp: initialize_agent_def Let_def split: sum.splits prod.splits if_splits
      dest: initialize_agent_try_response)

lemma generate_completion_try_response:
  "generate_completion_try w st messages options = (Inr r, st') \<Longrightarrow> is_response r"
  by (auto simp: generate_completion_try_def Let_def split: sum.splits prod.splits)

lemma generate_completion_response:
  "generate_completion w st messages options = (Inr r, st') \<Longrightarrow> is_response r"
  by (auto simp: generate_completion_def Let_def split: sum.splits prod.splits if_splits
      dest: generate_completion_try_response)

lemma execute_tool_try_response:
  "execute_tool_try w st tool_name params = (Inr r, st') \<Longrightarrow> is_response r"
  by (auto simp: execute_tool_try_def Let_def split: sum.splits if_splits pyval.splits)

lemma execute_tool_response:
  "execute_tool w st tool_name params = (Inr r, st') \<Longrightarrow> is_response r"
  by (auto simp: execute_tool_def Let_def split: sum.splits prod.splits if_splits
      dest: execute_tool_try_response)

lemma handle_request_try_response:
  "handle_request_try w st action data = (Inr r, st') \<Longrightarrow> is_response r"
  by (auto simp: handle_request_try_def split: sum.splits if_splits
      dest: initialize_agent_response generate_completion_response execute_tool_response)

lemma is_messageD:
  assumes "is_message m"
  obtains r c where
    "py_getitem m ''role'' = Inr (PStr r)" "py_getitem m ''content'' = Inr (PStr c)"
  using assms by (auto simp: is_message_def is_str_def split: sum.splits pyval.splits)

lemma next_user_content_messages:
  "list_all is_message msgs \<Longrightarrow> next_user_content msgs = Inr (PStr (first_user_text msgs))"
proof (induction msgs)
  case Nil
  show ?case by (simp add: first_user_text_def)
next
  case (Cons m msgs)
  from Cons.prems have m: "is_message m" and rest: "list_all is_message msgs" by simp_all
  from m obtain r c where r: "py_getitem m ''role'' = Inr (PStr r)"
    and c: "py_getitem m ''content'' = Inr (PStr c)" by (rule is_messageD)
  show ?case
  proof (cases "r = ''user''")
    case True
    with r c show ?thesis by (simp add: first_user_text_def)
  next
    case False
    with r c Cons.IH [OF rest] show ?thesis by (simp add: first_user_text_def)
  qed
qed



subsection \<open>The dispatcher\<close>

text \<open>
  Claim C1, as amended.  The claim says that \<open>handle_request\<close> returns a response for
  every decoded JSON value.  It does so for every JSON object: the call returns a
  response and raises nothing, and an exception that leaves the \<^verbatim>\<open>try\<close> block becomes the
  response with \<open>success\<close> false, the error text \<open>Error processing <action>: <message>\<close> and
  the traceback.  The two \<^verbatim>\<open>get\<close> calls on the request stand before the \<^verbatim>\<open>try\<close> block,
  so a decoded value that is not an object (a list, a text, a number, a boolean, null)
  makes the call raise \<open>AttributeError\<close> and leaves the state as it was; \<open>main\<close>, which
  passes on whatever \<^verbatim>\<open>json.loads\<close> returns, then writes \<open>Unexpected error: <message>\<close>.
\<close>

theorem handle_request_on_objects:
  "(\<exists>response. fst (handle_request w st (PDict kvs)) = Inr response \<and> is_response response)
   \<and> (\<forall>action data e st'.
        py_get (PDict kvs) ''action'' PNone = Inr action \<longrightarrow>
        py_get (PDict kvs) ''data'' (PDict []) = Inr data \<longrightarrow>
        handle_request_try w st action data = (Inl e, st') \<longrightarrow>
        handle_request w st (PDict kvs) =
          (Inr (PDict [(''success'', PBool False),
                       (''error'',
                        PStr (''Error processing '' @ py_str action @ '': '' @ str_exn e)),
                       (''traceback'', PStr (format_exc w e))]), st'))
   \<and> ((\<forall>items. request \<noteq> PDict items) \<longrightarrow>
        (\<exists>msg. handle_request w st request = (Inl (AttributeError msg), st)))
   \<and> ((\<forall>items. request \<noteq> PDict items) \<longrightarrow> json_loads w request_json = Inr request \<longrightarrow>
        (\<exists>msg. main w st (Inr request_json) =
           (json_dumps (PDict [(''success'', PBool False),
                               (''error'', PStr (''Unexpected error: '' @ msg))]) @
            ''\<newline>'', st)))"
proof (intro conjI)
  obtain action where a: "py_get (PDict kvs) ''action'' PNone = Inr action"
    by (simp add: py_get_def)
  obtain data where d: "py_get (PDict kvs) ''data'' (PDict []) = Inr data"
    by (simp add: py_get_def)
  obtain res st' where t: "handle_request_try w st action data = (res, st')"
    by (cases "handle_request_try w st action data")
  show "\<exists>response. fst (handle_request w st (PDict kvs)) = Inr response \<and> is_response response"
  proof (cases res)
    case (Inl e)
    with a d t show ?thesis by (simp add: handle_request_def)
  next
    case (Inr r)
    with t have "is_response r" by (auto dest: handle_request_try_response)
    with a d t Inr show ?thesis by (simp add: handle_request_def)
  qed
next
  show "\<forall>action data e st'.
        py_get (PDict kvs) ''action'' PNone = Inr action \<longrightarrow>
        py_get (PDict kvs) ''data'' (PDict []) = Inr data \<longrightarrow>
        handle_request_try w st action data = (Inl e, st') \<longrightarrow>
        handle_request w st (PDict kvs) =
          (Inr (PDict [(''success'', PBool False),
                       (''error'',
                        PStr (''Error processing '' @ py_str action @ '': '' @ str_exn e)),
                       (''traceback'', PStr (format_exc w e))]), st')"
    by (simp add: handle_request_def)
next
  show "(\<forall>items. request \<noteq> PDict items) \<longrightarrow>
        (\<exists>msg. handle_request w st request = (Inl (AttributeError msg), st))"
    by (cases request) (simp_all add: handle_request_def py_get_def)
next
  show "(\<forall>items. request \<noteq> PDict items) \<longrightarrow> json_loads w request_json = Inr request \<longrightarrow>
        (\<exists>msg. main w st (Inr request_json) =
           (json_dumps (PDict [(''success'', PBool False),
                               (''error'', PStr (''Unexpected error: '' @ msg))]) @
            ''\<newline>'', st))"
  proof (intro impI)
    assume other: "\<forall>items. request \<noteq> PDict items"
      and decoded: "json_loads w request_json = Inr request"
    from other obtain msg where "handle_request w st request = (Inl (AttributeError msg), st)"
      by (cases request) (simp_all add: handle_request_def py_get_def)
    with decoded have "main w st (Inr request_json) =
           (json_dumps (PDict [(''success'', PBool False),
                               (''error'', PStr (''Unexpected error: '' @ msg))]) @
            ''\<newline>'', st)"
      by (simp add: main_def main_except_def)
    then show "\<exists>msg. main w st (Inr request_json) =
           (json_dumps (PDict [(''success'', PBool False),
                               (''error'', PStr (''Unexpected error: '' @ msg))]) @
            ''\<newline>'', st)"
      by blast
  qed
qed

text \<open>The theorem at a request whose handler raises (the configuration is a number, and
  the compatibility mode of \<open>initialize_agent\<close> has no \<^verbatim>\<open>try\<close> block of its own), and at a
  request that is a number.\<close>

theorem handle_request_on_objects_witness:
  "handle_request demo_world fresh
      (PDict [(''action'', PStr ''initialize_agent''), (''data'', PInt 3)]) =
     (Inr (PDict [(''success'', PBool False),
                  (''error'', PStr (''Error processing initialize_agent: '' @
                     squote # ''int'' @ squote # '' object has no attribute 'get'' @ [squote])),
                  (''traceback'', PStr (''Traceback (most recent call last): '' @
                     squote # ''int'' @ squote # '' object has no attribute 'get'' @ [squote]))]),
      log (Enter_initialize_agent (PInt 3)) fresh)
   \<and> is_response (PDict [(''success'', PBool False),
                  (''error'', PStr (''Error processing initialize_agent: '' @
                     squote # ''int'' @ squote # '' object has no attribute 'get'' @ [squote])),
                  (''traceback'', PStr (''Traceback (most recent call last): '' @
                     squote # ''int'' @ squote # '' object has no attribute 'get'' @ [squote]))])
   \<and> isl (fst (handle_request demo_world fresh (PFloat ''nan'')))
   \<and> main demo_world fresh (Inr ''NaN'') =
     (''{'' @ [dquote] @ ''success'' @ [dquote] @ '': false, '' @ [dquote] @ ''error'' @
      [dquote] @ '': '' @ [dquote] @ ''Unexpected error: '' @ squote # ''float'' @ squote #
      '' object has no attribute '' @ squote # ''get'' @ squote # [dquote] @
      ''}\<newline>'', fresh)"
proof -
  let ?kvs = "[(''action'', PStr ''initialize_agent''), (''data'', PInt 3)]"
  let ?e = "AttributeError (squote # ''int'' @ squote # '' object has no attribute 'get'' @ [squote])"
  note facts = handle_request_on_objects [of demo_world fresh ?kvs "PFloat ''nan''" "''NaN''"]
  have a: "py_get (PDict ?kvs) ''action'' PNone = Inr (PStr ''initialize_agent'')"
    by (simp add: py_get_def)
  have d: "py_get (PDict ?kvs) ''data'' (PDict []) = Inr (PInt 3)"
    by (simp add: py_get_def)
  have t: "handle_request_try demo_world fresh (PStr ''initialize_agent'') (PInt 3) =
             (Inl ?e, log (Enter_initialize_agent (PInt 3)) fresh)"
    by (simp add: handle_request_try_def initialize_agent_def demo_world_def py_get_def)
  from facts a d t have r: "handle_request demo_world fresh (PDict ?kvs) =
      (Inr (PDict [(''success'', PBool False),
                   (''error'', PStr (''Error processing '' @ py_str (PStr ''initialize_agent'') @
                      '': '' @ str_exn ?e)),
                   (''traceback'', PStr (format_exc demo_world ?e))]),
       log (Enter_initialize_agent (PInt 3)) fresh)"
    by blast
  from facts have "\<exists>msg. handle_request demo_world fresh (PFloat ''nan'') =
      (Inl (AttributeError msg), fresh)"
    by simp
  then have l: "isl (fst (handle_request demo_world fresh (PFloat ''nan'')))"
    by auto
  have n: "json_loads demo_world ''NaN'' = Inr (PFloat ''nan'')"
    by (simp add: demo_world_def sample_loads_def)
  from facts n have "\<exists>msg. main demo_world fresh (Inr ''NaN'') =
      (json_dumps (PDict [(''success'', PBool False),
                          (''error'', PStr (''Unexpected error: '' @ msg))]) @
       ''\<newline>'', fresh)"
    by simp
  then have m: "main demo_world fresh (Inr ''NaN'') =
      (json_dumps (PDict [(''success'', PBool False),
         (''error'', PStr (''Unexpected error: '' @ squote # ''float'' @ squote #
            '' object has no attribute 'get'' @ [squote]))]) @ ''\<newline>'', fresh)"
    by (simp add: main_def main_except_def n handle_request_def py_get_def)
  from r l m show ?thesis
    by (simp add: py_str_def demo_world_def json_str_def json_char_def squote_def dquote_def
        backslash_def)
qed

text \<open>The claim as stated fails: the decoded value \<^verbatim>\<open>[1, 2]\<close> makes the call raise.\<close>

theorem handle_request_raises_on_list:
  "handle_request demo_world fresh (PList [PInt 1, PInt 2]) =
     (Inl (AttributeError
        (squote # ''list'' @ squote # '' object has no attribute 'get'' @ [squote])),
      fresh)"
  by (simp add: handle_request_def py_get_def)

text \<open>
  Claim C5.  For every request object whose action is none of \<open>ping\<close>, \<open>initialize_agent\<close>,
  \<open>generate_completion\<close> and \<open>execute_tool\<close>, the dispatcher returns exactly the dict with
  \<open>success\<close> false and the error \<open>Unknown action: <action>\<close>, and nothing else happens: the
  state comes back as it was, so no action handler was entered and no library entry
  point was called.
\<close>

theorem unknown_action:
  assumes "py_get (PDict kvs) ''action'' PNone = Inr action"
    and "action \<notin> {PStr ''ping'', PStr ''initialize_agent'', PStr ''generate_completion'',
                    PStr ''execute_tool''}"
  shows "handle_request w st (PDict kvs) =
           (Inr (PDict [(''success'', PBool False),
                        (''error'', PStr (''Unknown action: '' @ py_str action))]), st)"
  using assms by (simp add: handle_request_def py_get_def handle_request_try_def)

theorem unknown_action_witness:
  "handle_request toy_world running
      (PDict [(''action'', PStr ''shutdown''), (''data'', PDict [])]) =
     (Inr (PDict [(''success'', PBool False), (''error'', PStr ''Unknown action: shutdown'')]),
      running)
   \<and> handle_request demo_world fresh (PDict [(''action'', PList [PStr ''ping'', PInt 2])]) =
     (Inr (PDict [(''success'', PBool False),
                  (''error'', PStr (''Unknown action: ['' @ [squote] @ ''ping'' @ [squote] @
                     '', 2]''))]),
      fresh)"
  using unknown_action [of "[(''action'', PStr ''shutdown''), (''data'', PDict [])]"
      "PStr ''shutdown''" toy_world running]
    unknown_action [of "[(''action'', PList [PStr ''ping'', PInt 2])]"
      "PList [PStr ''ping'', PInt 2]" demo_world fresh]
  by (simp add: py_get_def py_str_def repr_str_def repr_char_def printable_def squote_def
      dquote_def backslash_def str_int_def str_nat.simps hex_digit_def Let_def)

text \<open>
  Claim C8.  For every request object with the action \<open>ping\<close>, whatever its \<open>data\<close>, the
  availability flag and the agent handle, the dispatcher returns exactly the dict with
  \<open>success\<close> true and \<open>data\<close> true and leaves the state as it was; a second ping on the
  resulting state gives the same response.
\<close>

theorem ping_exact:
  assumes "map_of kvs ''action'' = Some (PStr ''ping'')"
  shows "handle_request w st (PDict kvs) =
           (Inr (PDict [(''success'', PBool True), (''data'', PBool True)]), st)
         \<and> fst (handle_request w (snd (handle_request w st (PDict kvs))) (PDict kvs)) =
           fst (handle_request w st (PDict kvs))"
  using assms by (simp add: handle_request_def py_get_def handle_request_try_def)

theorem ping_exact_witness:
  "handle_request toy_world running (PDict [(''data'', PInt 7), (''action'', PStr ''ping'')]) =
     (Inr (PDict [(''success'', PBool True), (''data'', PBool True)]), running)
   \<and> handle_request demo_world fresh (PDict [(''action'', PStr ''ping'')]) =
     (Inr (PDict [(''success'', PBool True), (''data'', PBool True)]), fresh)"
  using ping_exact [of "[(''data'', PInt 7), (''action'', PStr ''ping'')]" toy_world running]
    ping_exact [of "[(''action'', PStr ''ping'')]" demo_world fresh]
  by simp

text \<open>
  Claim C10.  A request object with no \<open>action\<close> field is answered as an unknown action:
  the error text is \<open>Unknown action: None\<close>.
\<close>

theorem missing_action:
  assumes "map_of kvs ''action'' = None"
  shows "handle_request w st (PDict kvs) =
           (Inr (PDict [(''success'', PBool False),
                        (''error'', PStr ''Unknown action: None'')]), st)"
  using assms by (simp add: handle_request_def py_get_def handle_request_try_def py_str_def)

theorem missing_action_witness:
  "handle_request demo_world fresh (PDict [(''data'', PDict [])]) =
     (Inr (PDict [(''success'', PBool False), (''error'', PStr ''Unknown action: None'')]),
      fresh)"
  using missing_action [of "[(''data'', PDict [])]" demo_world fresh] by simp

subsection \<open>Agent initialization\<close>

text \<open>
  Claim C3.  Without the library, \<open>initialize_agent\<close> on the empty configuration returns
  success with the name \<open>Agent Nexus\<close>, the default description of the compatibility
  mode, the model \<open>demo-model\<close> and \<open>demo\<close> true, and the agent handle keeps its value.
\<close>

theorem initialize_agent_demo_defaults:
  assumes "\<not> AGNO_AVAILABLE w"
  shows "fst (initialize_agent w st (PDict [])) =
           Inr (PDict [(''success'', PBool True),
                       (''data'', PDict [(''name'', PStr ''Agent Nexus''),
                          (''description'', PStr ''Demo Agent (agno not available)''),
                          (''model'', PStr ''demo-model''),
                          (''demo'', PBool True)])])
         \<and> agent (snd (initialize_agent w st (PDict []))) = agent st"
  using assms by (simp add: initialize_agent_def py_get_def log_def)

theorem initialize_agent_demo_defaults_witness:
  "\<not> AGNO_AVAILABLE demo_world \<and>
   initialize_agent demo_world fresh (PDict []) =
     (Inr (PDict [(''success'', PBool True),
                  (''data'', PDict [(''name'', PStr ''Agent Nexus''),
                     (''description'', PStr ''Demo Agent (agno not available)''),
                     (''model'', PStr ''demo-model''),
                     (''demo'', PBool True)])]),
      \<lparr> agent = None, trace = [Enter_initialize_agent (PDict [])] \<rparr>)"
  using initialize_agent_demo_defaults [of demo_world fresh]
  by (simp add: demo_world_def initialize_agent_def py_get_def log_def fresh_def)

text \<open>
  Claim C4.  With the library, when the agent constructor raises, \<open>initialize_agent\<close>
  returns \<open>success\<close> false with the error \<open>Failed to initialize agent: <message>\<close>, and the
  agent handle holds the value it held before the call.
\<close>

theorem constructor_failure_keeps_agent:
  assumes "AGNO_AVAILABLE w"
    and "py_get config ''agentName'' (PStr ''Agent Nexus'') = Inr name"
    and "py_get config ''description'' (PStr ''An advanced cognitive agent architecture'') =
           Inr description"
    and "py_get config ''modelName'' (PStr ''gpt-4'') = Inr model"
    and "agno_Agent w name description model = Inl e"
  shows "fst (initialize_agent w st config) =
           Inr (PDict [(''success'', PBool False),
                       (''error'', PStr (''Failed to initialize agent: '' @ str_exn e))])
         \<and> agent (snd (initialize_agent w st config)) = agent st"
  using assms by (simp add: initialize_agent_def initialize_agent_try_def log_def)

theorem constructor_failure_keeps_agent_witness:
  "fst (initialize_agent toy_world running (PDict [(''modelName'', PStr ''broken'')])) =
     Inr (PDict [(''success'', PBool False),
                 (''error'', PStr ''Failed to initialize agent: unknown model'')])
   \<and> agent (snd (initialize_agent toy_world running
        (PDict [(''modelName'', PStr ''broken'')]))) = Some toy_agent"
  using constructor_failure_keeps_agent [of toy_world
      "PDict [(''modelName'', PStr ''broken'')]"
      "PStr ''Agent Nexus''" "PStr ''An advanced cognitive agent architecture''"
      "PStr ''broken''" "AgnoError ''unknown model''" running]
  by (simp add: toy_world_def py_get_def running_def)

subsection \<open>Completion generation\<close>

text \<open>
  Claim C2.  Without the library, or with no agent constructed, \<open>generate_completion\<close> on
  a list of messages returns success with the text of the fixed template around the
  first 50 characters of the content of the first message whose role is \<open>user\<close> (the
  empty text when there is none, as for the empty list).  The response is a function of
  the messages alone; the state only records that the handler was entered.
\<close>

theorem generate_completion_demo_echo:
  assumes "\<not> AGNO_AVAILABLE w \<or> agent st = None" and "list_all is_message msgs"
  shows "generate_completion w st (PList msgs) options =
           (Inr (PDict [(''success'', PBool True),
                        (''data'', PStr (demo_completion (take 50 (first_user_text msgs))))]),
            log (Enter_generate_completion (PList msgs) options) st)"
proof -
  have "agent (log (Enter_generate_completion (PList msgs) options) st) = agent st"
    by (simp add: log_def)
  with assms(1) next_user_content_messages [OF assms(2)] show ?thesis
    by (simp add: generate_completion_def py_iter_def py_slice_to_def py_str_def Let_def)
qed

theorem generate_completion_demo_echo_witness:
  "fst (generate_completion demo_world fresh
      (PList [PDict [(''role'', PStr ''system''), (''content'', PStr ''be brief'')],
              PDict [(''role'', PStr ''user''), (''content'', PStr ''hello'')],
              PDict [(''role'', PStr ''user''), (''content'', PStr ''again'')]]) (PDict [])) =
     Inr (PDict [(''success'', PBool True),
       (''data'', PStr (''Demo response to: '' @ [squote] @ ''hello...'' @ [squote] @
          ''\<newline>\<newline>This is a demo response because the agno library is not available. '' @
          ''Please install the agno library for full functionality.''))])
   \<and> fst (generate_completion toy_world fresh (PList []) (PDict [])) =
     Inr (PDict [(''success'', PBool True),
       (''data'', PStr (''Demo response to: '' @ [squote] @ ''...'' @ [squote] @
          ''\<newline>\<newline>This is a demo response because the agno library is not available. '' @
          ''Please install the agno library for full functionality.''))])
   \<and> fst (generate_completion demo_world fresh
      (PList [PDict [(''content'',
                PStr ''0123456789abcdefghij0123456789abcdefghij0123456789ABCDEFGHIJ''),
              (''role'', PStr ''user'')]]) (PDict [])) =
     Inr (PDict [(''success'', PBool True),
       (''data'', PStr (''Demo response to: '' @ [squote] @
          ''0123456789abcdefghij0123456789abcdefghij0123456789...'' @ [squote] @
          ''\<newline>\<newline>This is a demo response because the agno library is not available. '' @
          ''Please install the agno library for full functionality.''))])"
  using generate_completion_demo_echo [of demo_world fresh
      "[PDict [(''role'', PStr ''system''), (''content'', PStr ''be brief'')],
        PDict [(''role'', PStr ''user''), (''content'', PStr ''hello'')],
        PDict [(''role'', PStr ''user''), (''content'', PStr ''again'')]]" "PDict []"]
    generate_completion_demo_echo [of toy_world fresh "[]" "PDict []"]
    generate_completion_demo_echo [of demo_world fresh
      "[PDict [(''content'',
                PStr ''0123456789abcdefghij0123456789abcdefghij0123456789ABCDEFGHIJ''),
               (''role'', PStr ''user'')]]" "PDict []"]
  by (simp add: demo_world_def fresh_def is_message_def is_str_def py_getitem_def
      first_user_text_def demo_completion_def)




subsection \<open>Tool execution\<close>

text \<open>
  Claim C6.  With the library and an agent constructed, \<open>execute_tool\<close> with a tool name
  that is not among the agent's tools returns \<open>success\<close> false with the error
  \<open>Tool not found: <toolName>\<close>; the state records the entry of the handler and no call
  of the library's tool execution.
\<close>

theorem tool_not_found:
  assumes "AGNO_AVAILABLE w" and "agent st = Some a"
    and "agent_has_tool w a tool_name = Inr False"
  shows "execute_tool w st tool_name params =
           (Inr (PDict [(''success'', PBool False),
                        (''error'', PStr (''Tool not found: '' @ py_str tool_name))]),
            log (Enter_execute_tool tool_name params) st)"
  using assms by (simp add: execute_tool_def execute_tool_try_def log_def)

theorem tool_not_found_witness:
  "execute_tool toy_world running (PStr ''delete'') (PDict [(''q'', PStr ''x'')]) =
     (Inr (PDict [(''success'', PBool False), (''error'', PStr ''Tool not found: delete'')]),
      \<lparr> agent = Some toy_agent,
        trace = [Enter_execute_tool (PStr ''delete'') (PDict [(''q'', PStr ''x'')])] \<rparr>)"
  using tool_not_found [of toy_world running toy_agent "PStr ''delete''"
      "PDict [(''q'', PStr ''x'')]"]
  by (simp add: toy_world_def running_def log_def py_str_def)

subsection \<open>The process boundary\<close>

text \<open>
  Claim C7, as amended.  The claim says that standard input which is not a valid JSON
  document is answered with the error \<open>Invalid JSON: <parser message>\<close>.  That answer is
  given exactly for what the first \<^verbatim>\<open>except\<close> clause of \<open>main\<close> catches: when the text
  read makes \<^verbatim>\<open>json.loads\<close> raise \<open>JSONDecodeError\<close>, the run writes one line, the JSON
  object with \<open>success\<close> false and that error, and the state comes back as it was, so
  nothing was dispatched.  When reading the input or decoding it raises any other
  exception, the line carries \<open>Unexpected error: <message>\<close> instead, again with nothing
  dispatched.  Every text that \<^verbatim>\<open>json.loads\<close> accepts is dispatched, whether it is
  standard JSON or not.
\<close>

theorem invalid_json:
  "(json_loads w request_json = Inl (JSONDecodeError msg) \<longrightarrow>
      main w st (Inr request_json) =
        (json_dumps (PDict [(''success'', PBool False),
                            (''error'', PStr (''Invalid JSON: '' @ msg))]) @ ''\<newline>'',
         st))
   \<and> ((\<forall>m. e \<noteq> JSONDecodeError m) \<longrightarrow>
      main w st (Inl e) =
        (json_dumps (PDict [(''success'', PBool False),
                            (''error'', PStr (''Unexpected error: '' @ str_exn e))]) @
         ''\<newline>'', st)
      \<and> (json_loads w request_json = Inl e \<longrightarrow>
         main w st (Inr request_json) =
           (json_dumps (PDict [(''success'', PBool False),
                               (''error'', PStr (''Unexpected error: '' @ str_exn e))]) @
            ''\<newline>'', st)))
   \<and> (json_loads w request_json = Inr request \<longrightarrow>
      snd (main w st (Inr request_json)) = snd (handle_request w st request))"
proof (intro conjI impI)
  assume "json_loads w request_json = Inl (JSONDecodeError msg)"
  then show "main w st (Inr request_json) =
        (json_dumps (PDict [(''success'', PBool False),
                            (''error'', PStr (''Invalid JSON: '' @ msg))]) @ ''\<newline>'',
         st)"
    by (simp add: main_def main_except_def)
next
  assume other: "\<forall>m. e \<noteq> JSONDecodeError m"
  then have caught: "main_except e =
      json_dumps (PDict [(''success'', PBool False),
                         (''error'', PStr (''Unexpected error: '' @ str_exn e))]) @
      ''\<newline>''"
    by (cases e) (simp_all add: main_except_def)
  then show "main w st (Inl e) =
        (json_dumps (PDict [(''success'', PBool False),
                            (''error'', PStr (''Unexpected error: '' @ str_exn e))]) @
         ''\<newline>'', st)"
    by (simp add: main_def)
  assume "json_loads w request_json = Inl e"
  with caught show "main w st (Inr request_json) =
           (json_dumps (PDict [(''success'', PBool False),
                               (''error'', PStr (''Unexpected error: '' @ str_exn e))]) @
            ''\<newline>'', st)"
    by (simp add: main_def)
next
  assume "json_loads w request_json = Inr request"
  then show "snd (main w st (Inr request_json)) = snd (handle_request w st request)"
    by (simp add: main_def split: prod.splits sum.splits)
qed

text \<open>The theorem at the text \<^verbatim>\<open>not valid json\<close>, at an input whose reading fails, and at
  a ping request.\<close>

theorem invalid_json_witness:
  "main demo_world fresh (Inr ''not valid json'') =
     (''{'' @ [dquote] @ ''success'' @ [dquote] @ '': false, '' @ [dquote] @ ''error'' @
      [dquote] @ '': '' @ [dquote] @
      ''Invalid JSON: Expecting value: line 1 column 1 (char 0)'' @ [dquote] @
      ''}\<newline>'', fresh)
   \<and> main demo_world fresh (Inl (OtherError ''[Errno 5] Input/output error'')) =
     (''{'' @ [dquote] @ ''success'' @ [dquote] @ '': false, '' @ [dquote] @ ''error'' @
      [dquote] @ '': '' @ [dquote] @
      ''Unexpected error: [Errno 5] Input/output error'' @ [dquote] @
      ''}\<newline>'', fresh)
   \<and> snd (main toy_world running
        (Inr (''{'' @ [dquote] @ ''action'' @ [dquote] @ '': '' @ [dquote] @ ''ping'' @
              [dquote] @ ''}''))) = running"
proof -
  let ?ping = "''{'' @ [dquote] @ ''action'' @ [dquote] @ '': '' @ [dquote] @ ''ping'' @
      [dquote] @ ''}''"
  have bad: "json_loads demo_world ''not valid json'' =
      Inl (JSONDecodeError ''Expecting value: line 1 column 1 (char 0)'')"
    by (simp add: demo_world_def sample_loads_def)
  have io: "\<forall>m. OtherError ''[Errno 5] Input/output error'' \<noteq> JSONDecodeError m"
    by simp
  have ping: "json_loads toy_world ?ping = Inr (PDict [(''action'', PStr ''ping'')])"
    by (simp add: toy_world_def sample_loads_def)
  from invalid_json [of demo_world "''not valid json''"
      "''Expecting value: line 1 column 1 (char 0)''" fresh] bad
  have "main demo_world fresh (Inr ''not valid json'') =
      (json_dumps (PDict [(''success'', PBool False),
         (''error'', PStr (''Invalid JSON: '' @
            ''Expecting value: line 1 column 1 (char 0)''))]) @ ''\<newline>'', fresh)"
    by blast
  moreover
  from invalid_json [where e = "OtherError ''[Errno 5] Input/output error''"
      and w = demo_world and st = fresh] io
  have "main demo_world fresh (Inl (OtherError ''[Errno 5] Input/output error'')) =
      (json_dumps (PDict [(''success'', PBool False),
         (''error'', PStr (''Unexpected error: '' @
            str_exn (OtherError ''[Errno 5] Input/output error'')))]) @ ''\<newline>'', fresh)"
    by blast
  moreover
  from invalid_json [where w = toy_world and st = running and request_json = ?ping
      and request = "PDict [(''action'', PStr ''ping'')]"] ping
  have "snd (main toy_world running (Inr ?ping)) =
      snd (handle_request toy_world running (PDict [(''action'', PStr ''ping'')]))"
    by blast
  ultimately show ?thesis
    by (simp add: json_str_def json_char_def dquote_def backslash_def handle_request_def
        handle_request_try_def py_get_def)
qed

text \<open>The claim as stated fails at three inputs that are no JSON documents.  Bytes that
  are not text in the encoding of standard input make the read raise, and the answer is
  \<open>Unexpected error\<close>.  The texts \<^verbatim>\<open>NaN\<close> and \<^verbatim>\<open>{"action": NaN}\<close> are accepted by
  \<^verbatim>\<open>json.loads\<close> and dispatched: the first ends in \<open>Unexpected error\<close>, the second in
  \<open>Unknown action: nan\<close>.\<close>

theorem invalid_input_other_answers:
  "main demo_world fresh
      (Inl (UnicodeDecodeError (squote # ''utf-8'' @ squote #
         '' codec can't decode byte 0xff in position 0: invalid start byte''))) =
     (''{'' @ [dquote] @ ''success'' @ [dquote] @ '': false, '' @ [dquote] @ ''error'' @
      [dquote] @ '': '' @ [dquote] @ ''Unexpected error: '' @ squote # ''utf-8'' @ squote #
      '' codec can't decode byte 0xff in position 0: invalid start byte'' @ [dquote] @
      ''}\<newline>'', fresh)
   \<and> main demo_world fresh (Inr ''NaN'') =
     (''{'' @ [dquote] @ ''success'' @ [dquote] @ '': false, '' @ [dquote] @ ''error'' @
      [dquote] @ '': '' @ [dquote] @ ''Unexpected error: '' @ squote # ''float'' @ squote #
      '' object has no attribute '' @ squote # ''get'' @ squote # [dquote] @
      ''}\<newline>'', fresh)
   \<and> main demo_world fresh (Inr (''{'' @ [dquote] @ ''action'' @ [dquote] @ '': NaN}'')) =
     (''{'' @ [dquote] @ ''success'' @ [dquote] @ '': false, '' @ [dquote] @ ''error'' @
      [dquote] @ '': '' @ [dquote] @ ''Unknown action: nan'' @ [dquote] @
      ''}\<newline>'', fresh)"
  by (simp add: main_def main_except_def demo_world_def sample_loads_def handle_request_def
      handle_request_try_def py_get_def py_str_def json_str_def json_char_def squote_def
      dquote_def backslash_def)

end
